theory Spec2Isabelle
  imports Complex_Main
begin

section \<open>DX heating coil: correction curves, defrost model, performance evaluation\<close>

text \<open>
  A shallow embedding of \<^verbatim>\<open>DXHeatingCoil.py\<close>.

  Modelling conventions.
  \<^item> A Python \<^verbatim>\<open>float\<close> is a \<^typ>\<open>real\<close>: rounding, overflow and the special values
    of IEEE arithmetic are not modelled. Decimal literals are exact rationals; \<^verbatim>\<open>1e-6\<close> is
    written \<open>1 / 1000000\<close>.
  \<^item> \<^verbatim>\<open>psychrolib\<close> is a third-party library. Its two functions used here are taken as
    parameters (a record of functions); a call that raises is the value \<open>None\<close>.
  \<^item> Every exception the program can raise is a value: a result is \<open>Inl e\<close> for the
    exception \<open>e\<close> and \<open>Inr v\<close> for the value \<open>v\<close>. A division whose divisor is computed
    is \<open>truediv\<close>, which raises on a zero divisor as Python's \<^verbatim>\<open>/\<close> does; a division
    by a non-zero literal is written with \<open>/\<close>.
  \<^item> Python's \<^verbatim>\<open>max(a, b)\<close> and \<^verbatim>\<open>min(a, b)\<close> on two numbers are \<^term>\<open>max\<close> and
    \<^term>\<open>min\<close> of HOL: on a linear order they return equal values.
  \<^item> The module-level assignments of lines 68 to 77 are the fields of the record
    \<open>inputs\<close>; the names bound by lines 80 to 98 are the fields of the record \<open>outputs\<close>.
    A name that only one branch binds is an \<open>option\<close>.
\<close>

subsection \<open>Correction curve library (lines 5 to 32)\<close>

definition TotCapTempModFac :: "real \<Rightarrow> real" where
  "TotCapTempModFac Tdb =
     (let a = 0.758746; b = 0.027626; c = 0.000148716; d = 0.0000034992
      in a + b * Tdb + c * Tdb ^ 2 + d * Tdb ^ 3)"

definition TotCapFlowModFac :: "real \<Rightarrow> real" where
  "TotCapFlowModFac FF =
     (let a = 0.84; b = 0.16; c = 0.0; d = 0.0
      in a + b * FF + c * FF ^ 2 + d * FF ^ 3)"

definition EERTempModFac :: "real \<Rightarrow> real" where
  "EERTempModFac Tdb =
     (let a = 1.19248; b = - 0.0300438; c = 0.00103745; d = - 0.000023328
      in a + b * Tdb + c * Tdb ^ 2 + d * Tdb ^ 3)"

definition EERFlowModFac :: "real \<Rightarrow> real" where
  "EERFlowModFac FF =
     (let a = 1.3824; b = - 0.4336; c = 0.0512; d = 0.0
      in a + b * FF + c * FF ^ 2 + d * FF ^ 3)"

definition PLF_curve :: "real \<Rightarrow> real" where
  "PLF_curve PLR = 0.85 + 0.15 * PLR"

definition DefrostEIRTempModFac :: "real \<Rightarrow> real \<Rightarrow> real" where
  "DefrostEIRTempModFac Twbi Tdb =
     (let a = 1; b = 0; c = 0; d = 0; e = 0; f = 0
      in a + b * Twbi + c * Twbi ^ 2 + d * Tdb + e * Tdb ^ 2 + f * Twbi * Tdb)"

subsection \<open>Exceptions and the psychrometric provider\<close>

datatype error = PsychrolibError | ZeroDivisionError

record psychrolib =
  GetHumRatioFromTWetBulb :: "real \<Rightarrow> real \<Rightarrow> real \<Rightarrow> real option"
  GetSatHumRatio :: "real \<Rightarrow> real \<Rightarrow> real option"

definition provider :: "real option \<Rightarrow> error + real" where
  "provider r = (case r of None \<Rightarrow> Inl PsychrolibError | Some v \<Rightarrow> Inr v)"

definition truediv :: "real \<Rightarrow> real \<Rightarrow> error + real" where
  "truediv x y = (if y = 0 then Inl ZeroDivisionError else Inr (x / y))"

definition and_then :: "error + 'a \<Rightarrow> ('a \<Rightarrow> error + 'b) \<Rightarrow> error + 'b" where
  "and_then m k = (case m of Inl e \<Rightarrow> Inl e | Inr v \<Rightarrow> k v)"

subsection \<open>Defrost model (lines 34 to 64)\<close>

text \<open>
  Lines 47 to 50: the coil temperature, the two provider calls in the order the source
  makes them, and the floored humidity differential.
\<close>

definition OutdoorCoildw :: "psychrolib \<Rightarrow> real \<Rightarrow> real \<Rightarrow> error + real" where
  "OutdoorCoildw psy Tdbo Twbo =
     (let OutdoorCoilT = 0.82 * Tdbo - 8.589;
          OutdoorPress = 98600
      in and_then (provider (GetHumRatioFromTWetBulb psy Tdbo Twbo OutdoorPress))
           (\<lambda>OutdoorHumRat.
         and_then (provider (GetSatHumRatio psy OutdoorCoilT OutdoorPress))
           (\<lambda>SatHumRat.
         Inr (max (1 / 1000000) (OutdoorHumRat - SatHumRat)))))"

text \<open>
  Lines 52 to 64. \<open>DemandDefrost\<close> is the string the source compares with
  \<^verbatim>\<open>"OnDemand"\<close>; every other string takes the timed branch. \<open>tfrac_defrost\<close> is
  \<open>None\<close> for Python's \<^verbatim>\<open>None\<close>. The result is the returned triple
  (heating-capacity multiplier, input-power multiplier, defrost time fraction).
\<close>

definition DefrostCalc ::
  "psychrolib \<Rightarrow> real \<Rightarrow> real \<Rightarrow> string \<Rightarrow> real option \<Rightarrow> error + real \<times> real \<times> real" where
  "DefrostCalc psy Tdbo Twbo DemandDefrost tfrac_defrost =
     and_then (OutdoorCoildw psy Tdbo Twbo) (\<lambda>dw.
       if DemandDefrost = ''OnDemand'' then
         and_then (truediv 0.01446 dw) (\<lambda>q.
         and_then (truediv 1 (1 + q)) (\<lambda>tfrac.
           let Heating_Capacity_Multiplier = 0.875 * (1 - tfrac);
               Input_Power_Multiplier = 0.954 * (1 - tfrac)
           in Inr (Heating_Capacity_Multiplier, Input_Power_Multiplier, tfrac)))
       else
         let tfrac = (case tfrac_defrost of None \<Rightarrow> 0.058333 | Some t \<Rightarrow> t);
             Heating_Capacity_Multiplier = 0.909 - 107.33 * dw;
             Input_Power_Multiplier = 0.9 - 36.45 * dw
         in Inr (Heating_Capacity_Multiplier, Input_Power_Multiplier, tfrac))"

subsection \<open>Performance evaluation (lines 68 to 98)\<close>

record inputs =
  OAT :: real
  Outdoor_WBT :: real
  Indoor_WBT :: real
  Delivered_Load :: real
  OAT_max_defrost :: real
  Q_total_rated :: real
  COP_rated :: real

record outputs =
  Input_Power_Multiplier :: real
  Heating_capacity_multiplier :: "real option"
  Q_total :: real
  Q_defrost :: "real option"
  PLR :: real
  PLF :: real
  RTF :: real
  P_defrost :: real
  P_heating :: real

text \<open>The literal operating point and equipment rating of lines 68 to 77.\<close>

definition source_inputs :: inputs where
  "source_inputs =
     \<lparr>OAT = 2.7, Outdoor_WBT = 1.332824959, Indoor_WBT = 12.1110695,
      Delivered_Load = 175901.2156, OAT_max_defrost = 5,
      Q_total_rated = 14333.9065, COP_rated = 3.8377982946518\<rparr>"

text \<open>
  Lines 81 to 89, the branch taken when \<^verbatim>\<open>OAT <= OAT_max_defrost\<close>. The source calls
  \<open>DefrostCalc\<close> five times with the same arguments and indexes the returned triple;
  \<open>[0]\<close>, \<open>[1]\<close> and \<open>[2]\<close> are \<open>fst\<close>, \<open>fst \<circ> snd\<close> and \<open>snd \<circ> snd\<close>.
\<close>

definition defrost_active :: "psychrolib \<Rightarrow> inputs \<Rightarrow> error + outputs" where
  "defrost_active psy i =
     (let D = DefrostCalc psy (OAT i) (Outdoor_WBT i) ''OnDemand'' None in
      and_then D (\<lambda>r81.
      let Input_Power_Multiplier = fst (snd r81) in
      and_then D (\<lambda>r82.
      let Q_total = Q_total_rated i * TotCapTempModFac (OAT i) * TotCapFlowModFac 1 * fst r82 in
      and_then D (\<lambda>r83.
      let Q_defrost = 0.01 * snd (snd r83) * (7.222 - OAT i) * (Q_total_rated i / 1.01667) in
      and_then (truediv (Delivered_Load i) (Q_total * 60)) (\<lambda>PLR0.
      and_then (truediv Q_defrost Q_total) (\<lambda>dq.
      let PLR = min 1.0 (PLR0 + dq);
          PLF = PLF_curve PLR in
      and_then (truediv PLR PLF) (\<lambda>x.
      let RTF = min 1 x in
      and_then D (\<lambda>r88.
      let P_defrost = DefrostEIRTempModFac (Indoor_WBT i) (OAT i)
                        * (Q_total_rated i / 1.01667) * snd (snd r88) * RTF in
      and_then (truediv 1 (COP_rated i)) (\<lambda>inv.
      and_then D (\<lambda>r89.
      let P_heating = inv * Q_total * EERTempModFac (OAT i) * EERFlowModFac 1
                        * fst (snd r89) * RTF in
      Inr \<lparr>Input_Power_Multiplier = Input_Power_Multiplier,
           Heating_capacity_multiplier = None,
           Q_total = Q_total, Q_defrost = Some Q_defrost,
           PLR = PLR, PLF = PLF, RTF = RTF,
           P_defrost = P_defrost, P_heating = P_heating\<rparr>))))))))))"

text \<open>Lines 91 to 98, the \<^verbatim>\<open>else\<close> branch. No provider call is made here.\<close>

definition defrost_inactive :: "inputs \<Rightarrow> error + outputs" where
  "defrost_inactive i =
     (let Input_Power_Multiplier = 1;
          Heating_capacity_multiplier = 1;
          Q_total = Q_total_rated i * TotCapTempModFac (OAT i) * TotCapFlowModFac 1
                      * Heating_capacity_multiplier in
      and_then (truediv (Delivered_Load i) (Q_total * 60)) (\<lambda>PLR.
      let PLF = PLF_curve PLR in
      and_then (truediv PLR PLF) (\<lambda>x.
      let RTF = min 1 x in
      and_then (truediv 1 (COP_rated i)) (\<lambda>inv.
      let P_heating = inv * Q_total * EERTempModFac (OAT i) * EERFlowModFac 1
                        * Input_Power_Multiplier * RTF;
          P_defrost = 0 in
      Inr \<lparr>Input_Power_Multiplier = Input_Power_Multiplier,
           Heating_capacity_multiplier = Some Heating_capacity_multiplier,
           Q_total = Q_total, Q_defrost = None,
           PLR = PLR, PLF = PLF, RTF = RTF,
           P_defrost = P_defrost, P_heating = P_heating\<rparr>))))"

text \<open>Line 80: the conditional that selects the branch.\<close>

definition evaluate :: "psychrolib \<Rightarrow> inputs \<Rightarrow> error + outputs" where
  "evaluate psy i =
     (if OAT i \<le> OAT_max_defrost i then defrost_active psy i else defrost_inactive i)"

subsection \<open>A provider for concrete evaluation\<close>

text \<open>
  A provider that answers every call with a fixed humidity ratio and a fixed saturation
  humidity ratio. Concrete evaluations below use it with values of the size
  \<^verbatim>\<open>psychrolib\<close> returns at the operating point they name.
\<close>

definition fixed_provider :: "real \<Rightarrow> real \<Rightarrow> psychrolib" where
  "fixed_provider w ws =
     \<lparr>GetHumRatioFromTWetBulb = (\<lambda>_ _ _. Some w), GetSatHumRatio = (\<lambda>_ _. Some ws)\<rparr>"

section \<open>Auxiliary facts\<close>

lemmas curve_defs = TotCapTempModFac_def TotCapFlowModFac_def EERTempModFac_def
  EERFlowModFac_def PLF_curve_def DefrostEIRTempModFac_def

lemma and_then_Inr [simp]: "and_then (Inr v) k = k v"
  by (simp add: and_then_def)

lemma and_then_Inl [simp]: "and_then (Inl e) k = Inl e"
  by (simp add: and_then_def)

lemma and_then_eq_Inr: "and_then m k = Inr r \<longleftrightarrow> (\<exists>v. m = Inr v \<and> k v = Inr r)"
  by (cases m) simp_all

lemma truediv_nonzero: "y \<noteq> 0 \<Longrightarrow> truediv x y = Inr (x / y)"
  by (simp add: truediv_def)

lemma truediv_eq_Inr: "truediv x y = Inr v \<longleftrightarrow> y \<noteq> 0 \<and> v = x / y"
  by (auto simp: truediv_def)

subsection \<open>The humidity differential\<close>

lemma OutdoorCoildw_Some:
  assumes "GetHumRatioFromTWetBulb psy Tdbo Twbo 98600 = Some w"
    and "GetSatHumRatio psy (0.82 * Tdbo - 8.589) 98600 = Some ws"
  shows "OutdoorCoildw psy Tdbo Twbo = Inr (max (1 / 1000000) (w - ws))"
  using assms by (simp add: OutdoorCoildw_def provider_def)

lemma OutdoorCoildw_floor:
  assumes "OutdoorCoildw psy Tdbo Twbo = Inr dw"
  shows "1 / 1000000 \<le> dw"
  using assms
  by (auto simp: OutdoorCoildw_def provider_def and_then_def split: option.splits)

lemma OutdoorCoildw_error:
  assumes "OutdoorCoildw psy Tdbo Twbo = Inl e"
  shows "e = PsychrolibError"
  using assms
  by (auto simp: OutdoorCoildw_def provider_def and_then_def split: option.splits)

subsection \<open>Arithmetic of the two defrost strategies\<close>

lemma reciprocal_bounds:
  fixes q :: real
  assumes "0 < q"
  shows "0 < 1 / (1 + q)" and "1 / (1 + q) < 1"
proof -
  have d: "0 < 1 + q" using assms by linarith
  then show "0 < 1 / (1 + q)" by simp
  have "1 < 1 + q" using assms by linarith
  with d show "1 / (1 + q) < 1" by (simp add: divide_less_eq)
qed

lemma tfrac_bounds:
  fixes dw :: real
  assumes "0 < dw"
  shows "0 < 1 / (1 + 0.01446 / dw)" and "1 / (1 + 0.01446 / dw) < 1"
proof -
  have q: "0 < 0.01446 / dw" by (rule divide_pos_pos) (use assms in simp_all)
  show "0 < 1 / (1 + 0.01446 / dw)" by (rule reciprocal_bounds(1) [OF q])
  show "1 / (1 + 0.01446 / dw) < 1" by (rule reciprocal_bounds(2) [OF q])
qed

lemma OnDemand_multiplier_bounds:
  fixes t :: real
  assumes "0 < t" and "t < 1"
  shows "0 < 0.875 * (1 - t)" and "0.875 * (1 - t) \<le> 1"
    and "0 < 0.954 * (1 - t)" and "0.954 * (1 - t) \<le> 1"
  using assms by simp_all

lemma Timed_multiplier_bounds:
  fixes dw :: real
  assumes "0 < dw"
  shows "0.909 - 107.33 * dw \<le> 1" and "0.9 - 36.45 * dw \<le> 1"
    and "0 < 0.909 - 107.33 * dw \<longleftrightarrow> dw < 0.909 / 107.33"
    and "0 < 0.9 - 36.45 * dw \<longleftrightarrow> dw < 0.9 / 36.45"
  using assms by (simp_all add: field_simps)

subsection \<open>What \<open>DefrostCalc\<close> returns, by strategy\<close>

lemma DefrostCalc_OnDemand_dw:
  assumes "OutdoorCoildw psy Tdbo Twbo = Inr dw"
  shows "DefrostCalc psy Tdbo Twbo ''OnDemand'' tf =
           Inr (0.875 * (1 - 1 / (1 + 0.01446 / dw)),
                0.954 * (1 - 1 / (1 + 0.01446 / dw)),
                1 / (1 + 0.01446 / dw))"
proof -
  have dw: "0 < dw" using OutdoorCoildw_floor [OF assms] by simp
  then have q: "truediv 0.01446 dw = Inr (0.01446 / dw)"
    by (simp add: truediv_def)
  have "1 + 0.01446 / dw \<noteq> 0" using tfrac_bounds(1) [OF dw] by auto
  then have t: "truediv 1 (1 + 0.01446 / dw) = Inr (1 / (1 + 0.01446 / dw))"
    by (rule truediv_nonzero)
  show ?thesis
    unfolding DefrostCalc_def using assms q t by (simp add: Let_def)
qed

lemma DefrostCalc_Timed_dw:
  assumes "OutdoorCoildw psy Tdbo Twbo = Inr dw" and "s \<noteq> ''OnDemand''"
  shows "DefrostCalc psy Tdbo Twbo s tf =
           Inr (0.909 - 107.33 * dw, 0.9 - 36.45 * dw,
                case tf of None \<Rightarrow> 0.058333 | Some t \<Rightarrow> t)"
  unfolding DefrostCalc_def using assms by (simp add: Let_def)

text \<open>The only exception \<open>DefrostCalc\<close> lets through is the provider's.\<close>

lemma DefrostCalc_error:
  assumes "DefrostCalc psy Tdbo Twbo s tf = Inl e"
  shows "e = PsychrolibError"
proof (cases "OutdoorCoildw psy Tdbo Twbo")
  case (Inl e')
  then show ?thesis using assms OutdoorCoildw_error [OF Inl]
    by (simp add: DefrostCalc_def)
next
  case (Inr dw)
  show ?thesis
  proof (cases "s = ''OnDemand''")
    case True
    then show ?thesis using assms DefrostCalc_OnDemand_dw [OF Inr, of tf] by simp
  next
    case False
    then show ?thesis using assms DefrostCalc_Timed_dw [OF Inr False, of tf] by simp
  qed
qed

subsection \<open>The two branches of the evaluation\<close>

lemma defrost_active_fields:
  assumes "defrost_active psy i = Inr r"
  shows "Q_defrost r \<noteq> None" and "Heating_capacity_multiplier r = None"
    and "PLR r \<le> 1" and "PLF r = PLF_curve (PLR r)"
    and "RTF r = min 1 (PLR r / PLF r)" and "PLF r \<noteq> 0"
proof -
  from assms obtain d plr0 dq x inv where
    r: "r = \<lparr>Input_Power_Multiplier = fst (snd d), Heating_capacity_multiplier = None,
             Q_total = Q_total_rated i * TotCapTempModFac (OAT i) * TotCapFlowModFac 1 * fst d,
             Q_defrost = Some (0.01 * snd (snd d) * (7.222 - OAT i) * (Q_total_rated i / 1.01667)),
             PLR = min 1.0 (plr0 + dq), PLF = PLF_curve (min 1.0 (plr0 + dq)),
             RTF = min 1 x,
             P_defrost = DefrostEIRTempModFac (Indoor_WBT i) (OAT i)
                           * (Q_total_rated i / 1.01667) * snd (snd d) * min 1 x,
             P_heating = inv * (Q_total_rated i * TotCapTempModFac (OAT i) * TotCapFlowModFac 1 * fst d)
                           * EERTempModFac (OAT i) * EERFlowModFac 1 * fst (snd d) * min 1 x\<rparr>"
    and x: "truediv (min 1.0 (plr0 + dq)) (PLF_curve (min 1.0 (plr0 + dq))) = Inr x"
    unfolding defrost_active_def Let_def and_then_eq_Inr by force
  from x have nz: "PLF_curve (min 1.0 (plr0 + dq)) \<noteq> 0"
    and xv: "x = min 1.0 (plr0 + dq) / PLF_curve (min 1.0 (plr0 + dq))"
    unfolding truediv_eq_Inr by blast+
  show "Q_defrost r \<noteq> None" by (simp add: r)
  show "Heating_capacity_multiplier r = None" by (simp add: r)
  show "PLR r \<le> 1" by (simp add: r)
  show "PLF r = PLF_curve (PLR r)" by (simp add: r)
  show "RTF r = min 1 (PLR r / PLF r)" by (simp add: r xv)
  show "PLF r \<noteq> 0" using nz by (simp add: r)
qed

lemma defrost_inactive_fields:
  assumes "defrost_inactive i = Inr r"
  shows "Q_defrost r = None" and "Heating_capacity_multiplier r = Some 1"
    and "Input_Power_Multiplier r = 1" and "P_defrost r = 0"
    and "Q_total r = Q_total_rated i * TotCapTempModFac (OAT i) * TotCapFlowModFac 1"
    and "PLR r = Delivered_Load i / (Q_total r * 60)"
    and "PLF r = PLF_curve (PLR r)"
    and "RTF r = min 1 (PLR r / PLF r)" and "PLF r \<noteq> 0"
  using assms
  by (auto simp: defrost_inactive_def Let_def and_then_def truediv_def
           split: sum.splits if_splits)

text \<open>The \<^verbatim>\<open>else\<close> branch returns exactly when none of its three divisors is zero.\<close>

lemma defrost_inactive_returns:
  "(\<exists>r. defrost_inactive i = Inr r) \<longleftrightarrow>
     Q_total_rated i * TotCapTempModFac (OAT i) * TotCapFlowModFac 1 \<noteq> 0
     \<and> PLF_curve (Delivered_Load i
          / (Q_total_rated i * TotCapTempModFac (OAT i) * TotCapFlowModFac 1 * 60)) \<noteq> 0
     \<and> COP_rated i \<noteq> 0"
  by (auto simp: defrost_inactive_def Let_def and_then_def truediv_def
           split: sum.splits if_splits)

lemma defrost_inactive_error:
  assumes "defrost_inactive i = Inl e"
  shows "e = ZeroDivisionError"
  using assms
  by (auto simp: defrost_inactive_def Let_def and_then_def truediv_def
           split: sum.splits if_splits)

text \<open>
  The runtime fraction is clamped in both branches, and it is not negative when the
  part-load ratio is not negative and the part-load factor is positive.
\<close>

lemma evaluate_RTF:
  assumes "evaluate psy i = Inr r"
  shows "RTF r = min 1 (PLR r / PLF r)"
  using assms defrost_active_fields(5) [of psy i r] defrost_inactive_fields(8) [of i r]
  by (simp add: evaluate_def split: if_splits)

lemma evaluate_RTF_le_1:
  assumes "evaluate psy i = Inr r"
  shows "RTF r \<le> 1"
  by (simp add: evaluate_RTF [OF assms])

lemma evaluate_RTF_nonneg:
  assumes "evaluate psy i = Inr r" and "0 \<le> PLR r" and "0 < PLF r"
  shows "0 \<le> RTF r"
  using assms(2,3) by (simp add: evaluate_RTF [OF assms(1)])

lemma evaluate_active_PLR_le_1:
  assumes "evaluate psy i = Inr r" and "OAT i \<le> OAT_max_defrost i"
  shows "PLR r \<le> 1"
  using assms defrost_active_fields(3) [of psy i r] by (simp add: evaluate_def)

section \<open>Properties of the defrost model\<close>

text \<open>
  C1. Called with the strategy \<^verbatim>\<open>"OnDemand"\<close>, at any outdoor dry-bulb and wet-bulb
  temperature for which the provider answers both calls, \<open>DefrostCalc\<close> returns the time
  fraction \<open>1 / (1 + 0.01446 / dw)\<close>, where \<open>dw\<close> is the humidity differential floored at
  \<open>1e-6\<close>, the heating-capacity multiplier \<open>0.875 * (1 - tfrac)\<close> and the input-power
  multiplier \<open>0.954 * (1 - tfrac)\<close>, whatever \<open>tfrac_defrost\<close> the caller passed.
\<close>

theorem DefrostCalc_OnDemand_formula:
  assumes "GetHumRatioFromTWetBulb psy Tdbo Twbo 98600 = Some w"
    and "GetSatHumRatio psy (0.82 * Tdbo - 8.589) 98600 = Some ws"
  shows "DefrostCalc psy Tdbo Twbo ''OnDemand'' tf =
           (let dw = max (1 / 1000000) (w - ws);
                tfrac = 1 / (1 + 0.01446 / dw)
            in Inr (0.875 * (1 - tfrac), 0.954 * (1 - tfrac), tfrac))"
  using DefrostCalc_OnDemand_dw [OF OutdoorCoildw_Some [OF assms]]
  by (simp add: Let_def)

text \<open>
  At the source's operating point (2.7 and 1.332824959 degrees Celsius), with humidity
  ratios of the size the provider gives there, the differential is 0.0014.
\<close>

theorem DefrostCalc_OnDemand_formula_witness:
  "DefrostCalc (fixed_provider 0.0037 0.0023) 2.7 1.332824959 ''OnDemand'' None =
     Inr (0.875 * (1 - 1 / (1 + 0.01446 / 0.0014)),
          0.954 * (1 - 1 / (1 + 0.01446 / 0.0014)),
          1 / (1 + 0.01446 / 0.0014))"
  using DefrostCalc_OnDemand_formula
    [of "fixed_provider 0.0037 0.0023" "2.7" "1.332824959" "0.0037" "0.0023" None]
  by (simp add: fixed_provider_def)

text \<open>
  C5. The humidity differential is \<open>max 1e-6 (w - ws)\<close> for the humidity ratio \<open>w\<close> of the
  air and the saturation humidity ratio \<open>ws\<close> at the coil. It is at least \<open>1e-6\<close>, hence
  positive, the division \<open>0.01446 / dw\<close> returns, and \<open>DefrostCalc\<close> with the strategy
  \<^verbatim>\<open>"OnDemand"\<close> never raises \<open>ZeroDivisionError\<close>.
\<close>

theorem OutdoorCoildw_floored_no_zero_division:
  assumes "GetHumRatioFromTWetBulb psy Tdbo Twbo 98600 = Some w"
    and "GetSatHumRatio psy (0.82 * Tdbo - 8.589) 98600 = Some ws"
  shows "OutdoorCoildw psy Tdbo Twbo = Inr (max (1 / 1000000) (w - ws))
         \<and> 1 / 1000000 \<le> max (1 / 1000000) (w - ws)
         \<and> 0 < max (1 / 1000000) (w - ws)
         \<and> truediv 0.01446 (max (1 / 1000000) (w - ws))
             = Inr (0.01446 / max (1 / 1000000) (w - ws))
         \<and> DefrostCalc psy Tdbo Twbo ''OnDemand'' tf \<noteq> Inl ZeroDivisionError"
proof -
  let ?dw = "max (1 / 1000000) (w - ws)"
  have dw: "OutdoorCoildw psy Tdbo Twbo = Inr ?dw"
    by (rule OutdoorCoildw_Some [OF assms])
  have fl: "1 / 1000000 \<le> ?dw" by simp
  have pos: "0 < ?dw" by (rule less_le_trans [OF _ fl]) simp
  then have q: "truediv 0.01446 ?dw = Inr (0.01446 / ?dw)"
    by (simp add: truediv_def)
  have nz: "DefrostCalc psy Tdbo Twbo ''OnDemand'' tf \<noteq> Inl ZeroDivisionError"
    using DefrostCalc_error [of psy Tdbo Twbo "''OnDemand''" tf ZeroDivisionError] by auto
  from dw fl pos q nz show ?thesis by blast
qed

text \<open>
  Air drier than saturation at the coil (0.0023 against 0.0037): the difference is
  negative and the floor is what the division sees.
\<close>

theorem OutdoorCoildw_floored_no_zero_division_witness:
  "OutdoorCoildw (fixed_provider 0.0023 0.0037) 2.7 1.332824959 = Inr (1 / 1000000)
   \<and> truediv 0.01446 (1 / 1000000) = Inr 14460
   \<and> DefrostCalc (fixed_provider 0.0023 0.0037) 2.7 1.332824959 ''OnDemand'' None
        \<noteq> Inl ZeroDivisionError"
  using OutdoorCoildw_floored_no_zero_division
    [of "fixed_provider 0.0023 0.0037" "2.7" "1.332824959" "0.0023" "0.0037" None]
  by (simp add: fixed_provider_def)

text \<open>
  C6. Called with the strategy \<^verbatim>\<open>"Timed"\<close> and no \<open>tfrac_defrost\<close>, \<open>DefrostCalc\<close>
  returns the time fraction 0.058333; called with a fraction \<open>t\<close>, it returns \<open>t\<close>. Both
  multipliers are those of the timed formulas.
\<close>

theorem DefrostCalc_Timed_fraction:
  assumes "GetHumRatioFromTWetBulb psy Tdbo Twbo 98600 = Some w"
    and "GetSatHumRatio psy (0.82 * Tdbo - 8.589) 98600 = Some ws"
  shows "(let dw = max (1 / 1000000) (w - ws) in
            DefrostCalc psy Tdbo Twbo ''Timed'' None
              = Inr (0.909 - 107.33 * dw, 0.9 - 36.45 * dw, 0.058333)
          \<and> DefrostCalc psy Tdbo Twbo ''Timed'' (Some t)
              = Inr (0.909 - 107.33 * dw, 0.9 - 36.45 * dw, t))"
proof -
  have ne: "''Timed'' \<noteq> ''OnDemand''" by simp
  show ?thesis
    using DefrostCalc_Timed_dw [OF OutdoorCoildw_Some [OF assms] ne]
    by (simp add: Let_def)
qed

theorem DefrostCalc_Timed_fraction_witness:
  "DefrostCalc (fixed_provider 0.0037 0.0023) 2.7 1.332824959 ''Timed'' None
     = Inr (0.758738, 0.84897, 0.058333)
   \<and> DefrostCalc (fixed_provider 0.0037 0.0023) 2.7 1.332824959 ''Timed'' (Some 0.033)
     = Inr (0.758738, 0.84897, 0.033)"
  using DefrostCalc_Timed_fraction
    [of "fixed_provider 0.0037 0.0023" "2.7" "1.332824959" "0.0037" "0.0023" "0.033"]
  by (simp add: fixed_provider_def)

text \<open>
  C7, as the code has it. With the strategy \<^verbatim>\<open>"OnDemand"\<close> every returned result has
  its two multipliers in (0, 1] and its time fraction in [0, 1]. With any other strategy
  string the two multipliers are at most 1; the heating-capacity multiplier is positive
  exactly when the humidity differential is below \<open>0.909 / 107.33\<close>, the input-power
  multiplier exactly when it is below \<open>0.9 / 36.45\<close>, and the time fraction is in [0, 1]
  exactly when the caller passed none or passed one in [0, 1]: the timed formulas are
  not clamped and the caller's fraction is returned as it came.
\<close>

theorem DefrostCalc_result_ranges:
  assumes "GetHumRatioFromTWetBulb psy Tdbo Twbo 98600 = Some w"
    and "GetSatHumRatio psy (0.82 * Tdbo - 8.589) 98600 = Some ws"
  shows "(\<exists>c p t. DefrostCalc psy Tdbo Twbo ''OnDemand'' tf = Inr (c, p, t)
            \<and> 0 < c \<and> c \<le> 1 \<and> 0 < p \<and> p \<le> 1 \<and> 0 \<le> t \<and> t \<le> 1)
       \<and> (s \<noteq> ''OnDemand'' \<longrightarrow>
           (\<exists>c p t. DefrostCalc psy Tdbo Twbo s tf = Inr (c, p, t)
              \<and> c \<le> 1 \<and> p \<le> 1
              \<and> (0 < c \<longleftrightarrow> max (1 / 1000000) (w - ws) < 0.909 / 107.33)
              \<and> (0 < p \<longleftrightarrow> max (1 / 1000000) (w - ws) < 0.9 / 36.45)
              \<and> (0 \<le> t \<and> t \<le> 1 \<longleftrightarrow>
                   (case tf of None \<Rightarrow> True | Some u \<Rightarrow> 0 \<le> u \<and> u \<le> 1))))"
proof -
  let ?dw = "max (1 / 1000000) (w - ws)"
  let ?t = "1 / (1 + 0.01446 / ?dw)"
  have dw: "OutdoorCoildw psy Tdbo Twbo = Inr ?dw"
    by (rule OutdoorCoildw_Some [OF assms])
  have fl: "1 / 1000000 \<le> ?dw" by simp
  have pos: "0 < ?dw" by (rule less_le_trans [OF _ fl]) simp
  have t0: "0 < ?t" and t1: "?t < 1" using tfrac_bounds [OF pos] by blast+
  have on: "DefrostCalc psy Tdbo Twbo ''OnDemand'' tf
              = Inr (0.875 * (1 - ?t), 0.954 * (1 - ?t), ?t)"
    by (rule DefrostCalc_OnDemand_dw [OF dw])
  note b = OnDemand_multiplier_bounds [OF t0 t1]
  have A: "\<exists>c p t. DefrostCalc psy Tdbo Twbo ''OnDemand'' tf = Inr (c, p, t)
            \<and> 0 < c \<and> c \<le> 1 \<and> 0 < p \<and> p \<le> 1 \<and> 0 \<le> t \<and> t \<le> 1"
    using on b t0 t1 by (intro exI conjI) (assumption | rule less_imp_le)+
  have B: "\<exists>c p t. DefrostCalc psy Tdbo Twbo s tf = Inr (c, p, t)
              \<and> c \<le> 1 \<and> p \<le> 1
              \<and> (0 < c \<longleftrightarrow> ?dw < 0.909 / 107.33)
              \<and> (0 < p \<longleftrightarrow> ?dw < 0.9 / 36.45)
              \<and> (0 \<le> t \<and> t \<le> 1 \<longleftrightarrow>
                   (case tf of None \<Rightarrow> True | Some u \<Rightarrow> 0 \<le> u \<and> u \<le> 1))"
    if ne: "s \<noteq> ''OnDemand''"
  proof -
    let ?c = "0.909 - 107.33 * ?dw" and ?p = "0.9 - 36.45 * ?dw"
    let ?u = "case tf of None \<Rightarrow> 0.058333 | Some t \<Rightarrow> t"
    have ti: "DefrostCalc psy Tdbo Twbo s tf = Inr (?c, ?p, ?u)"
      by (rule DefrostCalc_Timed_dw [OF dw ne])
    have c1: "?c \<le> 1" by (rule Timed_multiplier_bounds(1) [OF pos])
    have p1: "?p \<le> 1" by (rule Timed_multiplier_bounds(2) [OF pos])
    have c0: "0 < ?c \<longleftrightarrow> ?dw < 0.909 / 107.33"
      by (rule Timed_multiplier_bounds(3) [OF pos])
    have p0: "0 < ?p \<longleftrightarrow> ?dw < 0.9 / 36.45"
      by (rule Timed_multiplier_bounds(4) [OF pos])
    have u: "0 \<le> ?u \<and> ?u \<le> 1 \<longleftrightarrow>
               (case tf of None \<Rightarrow> True | Some u \<Rightarrow> 0 \<le> u \<and> u \<le> 1)"
      by (simp split: option.split)
    show ?thesis using ti c1 p1 c0 p0 u by blast
  qed
  from A B show ?thesis by blast
qed

theorem DefrostCalc_result_ranges_witness:
  "(\<exists>c p t. DefrostCalc (fixed_provider 0.0037 0.0023) 2.7 1.332824959 ''OnDemand'' None
               = Inr (c, p, t)
        \<and> 0 < c \<and> c \<le> 1 \<and> 0 < p \<and> p \<le> 1 \<and> 0 \<le> t \<and> t \<le> 1)
   \<and> (\<exists>c p t. DefrostCalc (fixed_provider 0.0037 0.0023) 2.7 1.332824959 ''Timed'' None
               = Inr (c, p, t)
        \<and> c \<le> 1 \<and> p \<le> 1 \<and> 0 < c \<and> 0 < p \<and> 0 \<le> t \<and> t \<le> 1)"
  using DefrostCalc_result_ranges
    [of "fixed_provider 0.0037 0.0023" "2.7" "1.332824959" "0.0037" "0.0023" None "''Timed''"]
  by (simp add: fixed_provider_def)

text \<open>
  Saturated air at 40 degrees Celsius (humidity ratio about 0.0503, about 0.0197 at the
  coil temperature 24.211), the strategy \<^verbatim>\<open>"Timed"\<close> and a caller's fraction of 2: the
  returned multipliers are negative and the returned time fraction is 2.
\<close>

theorem DefrostCalc_Timed_out_of_range:
  "DefrostCalc (fixed_provider 0.0503 0.0197) 40 40 ''Timed'' (Some 2)
     = Inr (- 2.375298, - 0.21537, 2)
   \<and> \<not> (0 < (- 2.375298 :: real)) \<and> \<not> (0 < (- 0.21537 :: real)) \<and> \<not> ((2 :: real) \<le> 1)"
  by (simp add: DefrostCalc_def OutdoorCoildw_def provider_def fixed_provider_def Let_def)

text \<open>
  C10. With the strategy \<^verbatim>\<open>"OnDemand"\<close> the result of \<open>DefrostCalc\<close> does not depend
  on \<open>tfrac_defrost\<close>: two calls at the same temperatures agree in all three components
  (and in the exception, when the provider raises one).
\<close>

theorem DefrostCalc_OnDemand_ignores_tfrac:
  "DefrostCalc psy Tdbo Twbo ''OnDemand'' tfrac1 = DefrostCalc psy Tdbo Twbo ''OnDemand'' tfrac2"
  by (simp add: DefrostCalc_def)

section \<open>Properties of the correction curves\<close>

text \<open>
  C8. The part-load factor curve is \<open>0.85 + 0.15 * PLR\<close>, and it does not decrease on
  [0, 1]: for \<open>0 \<le> PLR1 \<le> PLR2 \<le> 1\<close>, \<open>PLF_curve PLR1 \<le> PLF_curve PLR2\<close>.
\<close>

theorem PLF_curve_monotone:
  assumes "0 \<le> PLR1" and "PLR1 \<le> PLR2" and "PLR2 \<le> 1"
  shows "PLF_curve PLR1 = 0.85 + 0.15 * PLR1 \<and> PLF_curve PLR2 = 0.85 + 0.15 * PLR2
         \<and> PLF_curve PLR1 \<le> PLF_curve PLR2"
  using assms by (simp add: PLF_curve_def)

theorem PLF_curve_monotone_witness:
  "PLF_curve 0.2 = 0.88 \<and> PLF_curve 0.7 = 0.955 \<and> PLF_curve 0.2 \<le> PLF_curve 0.7"
  using PLF_curve_monotone [of "0.2" "0.7"] by simp

text \<open>
  C9. With its coefficients (1, 0, 0, 0, 0, 0) the defrost-cycle efficiency temperature
  modifier is the constant 1 at every indoor wet-bulb and outdoor dry-bulb temperature.
\<close>

theorem DefrostEIRTempModFac_is_one: "DefrostEIRTempModFac Twbi Tdb = 1"
  by (simp add: DefrostEIRTempModFac_def)

section \<open>Properties of the performance evaluation\<close>

text \<open>
  C3. When the outdoor dry-bulb temperature equals the maximum-defrost temperature, the
  evaluation takes the defrost branch (the comparison of line 80 is \<open>\<le>\<close>): its result
  is that of lines 81 to 89, where \<open>Q_defrost\<close> is bound and
  \<open>Heating_capacity_multiplier\<close> is not.
\<close>

theorem evaluate_boundary_defrost_active:
  assumes "OAT i = OAT_max_defrost i"
  shows "evaluate psy i = defrost_active psy i
       \<and> (\<forall>r. evaluate psy i = Inr r \<longrightarrow>
              Q_defrost r \<noteq> None \<and> Heating_capacity_multiplier r = None)"
proof -
  have e: "evaluate psy i = defrost_active psy i"
    using assms by (simp add: evaluate_def)
  then show ?thesis using defrost_active_fields(1,2) [of psy i] by auto
qed

text \<open>
  The source's inputs with the outdoor temperature moved to the threshold, 5 degrees
  Celsius: the evaluation returns, and its defrost power is positive.
\<close>

theorem evaluate_boundary_defrost_active_witness:
  "OAT (source_inputs\<lparr>OAT := 5\<rparr>) = OAT_max_defrost (source_inputs\<lparr>OAT := 5\<rparr>)
   \<and> evaluate (fixed_provider 0.0028 0.0027) (source_inputs\<lparr>OAT := 5\<rparr>)
       = defrost_active (fixed_provider 0.0028 0.0027) (source_inputs\<lparr>OAT := 5\<rparr>)
   \<and> (case evaluate (fixed_provider 0.0028 0.0027) (source_inputs\<lparr>OAT := 5\<rparr>) of
        Inl e \<Rightarrow> False
      | Inr r \<Rightarrow> Q_defrost r \<noteq> None \<and> Heating_capacity_multiplier r = None
                 \<and> 0 < P_defrost r)"
proof -
  let ?i = "source_inputs\<lparr>OAT := 5\<rparr>" and ?psy = "fixed_provider 0.0028 0.0027"
  have h: "OAT ?i = OAT_max_defrost ?i" by (simp add: source_inputs_def)
  have run: "case defrost_active ?psy ?i of Inl e \<Rightarrow> False
             | Inr r \<Rightarrow> Q_defrost r \<noteq> None \<and> Heating_capacity_multiplier r = None
                 \<and> 0 < P_defrost r"
    by (simp add: defrost_active_def DefrostCalc_def OutdoorCoildw_def provider_def
         fixed_provider_def source_inputs_def truediv_def Let_def curve_defs)
  from evaluate_boundary_defrost_active [OF h, of ?psy] have
    "evaluate ?psy ?i = defrost_active ?psy ?i" by blast
  with h run show ?thesis by simp
qed

text \<open>
  C4. At every outdoor dry-bulb temperature above the maximum-defrost temperature the
  evaluation takes the \<^verbatim>\<open>else\<close> branch: whenever it returns, the defrost power is 0,
  the power and capacity multipliers are 1, and the total capacity is the rated capacity
  times \<open>TotCapTempModFac OAT\<close> times \<open>TotCapFlowModFac 1\<close>. It calls no provider, so the
  only exception is \<open>ZeroDivisionError\<close>, and it returns exactly when the total capacity,
  the part-load factor and the rated COP are not zero.
\<close>

theorem evaluate_above_threshold_inactive:
  assumes "OAT_max_defrost i < OAT i"
  shows "evaluate psy i = defrost_inactive i
       \<and> (\<forall>r. evaluate psy i = Inr r \<longrightarrow>
              P_defrost r = 0 \<and> Input_Power_Multiplier r = 1
              \<and> Heating_capacity_multiplier r = Some 1 \<and> Q_defrost r = None
              \<and> Q_total r = Q_total_rated i * TotCapTempModFac (OAT i) * TotCapFlowModFac 1)
       \<and> (\<forall>e. evaluate psy i = Inl e \<longrightarrow> e = ZeroDivisionError)
       \<and> ((\<exists>r. evaluate psy i = Inr r) \<longleftrightarrow>
             Q_total_rated i * TotCapTempModFac (OAT i) * TotCapFlowModFac 1 \<noteq> 0
             \<and> PLF_curve (Delivered_Load i
                  / (Q_total_rated i * TotCapTempModFac (OAT i) * TotCapFlowModFac 1 * 60)) \<noteq> 0
             \<and> COP_rated i \<noteq> 0)"
proof -
  have e: "evaluate psy i = defrost_inactive i"
    using assms by (simp add: evaluate_def)
  have f: "\<forall>r. defrost_inactive i = Inr r \<longrightarrow>
              P_defrost r = 0 \<and> Input_Power_Multiplier r = 1
              \<and> Heating_capacity_multiplier r = Some 1 \<and> Q_defrost r = None
              \<and> Q_total r = Q_total_rated i * TotCapTempModFac (OAT i) * TotCapFlowModFac 1"
    using defrost_inactive_fields(1-5) [of i] by blast
  have g: "\<forall>e. defrost_inactive i = Inl e \<longrightarrow> e = ZeroDivisionError"
    using defrost_inactive_error [of i] by blast
  show ?thesis unfolding e using f g defrost_inactive_returns [of i] by blast
qed

text \<open>The source's inputs at an outdoor temperature of 10 degrees Celsius.\<close>

theorem evaluate_above_threshold_inactive_witness:
  "OAT_max_defrost (source_inputs\<lparr>OAT := 10\<rparr>) < OAT (source_inputs\<lparr>OAT := 10\<rparr>)
   \<and> (case evaluate (fixed_provider 0.0062 0.0058) (source_inputs\<lparr>OAT := 10\<rparr>) of
        Inl e \<Rightarrow> False
      | Inr r \<Rightarrow> P_defrost r = 0 \<and> Input_Power_Multiplier r = 1
                 \<and> Heating_capacity_multiplier r = Some 1
                 \<and> Q_total r = 14333.9065 * 1.0533768 * 1)"
proof -
  let ?i = "source_inputs\<lparr>OAT := 10\<rparr>" and ?psy = "fixed_provider 0.0062 0.0058"
  have h: "OAT_max_defrost ?i < OAT ?i" by (simp add: source_inputs_def)
  have run: "case defrost_inactive ?i of Inl e \<Rightarrow> False
      | Inr r \<Rightarrow> P_defrost r = 0 \<and> Input_Power_Multiplier r = 1
                 \<and> Heating_capacity_multiplier r = Some 1
                 \<and> Q_total r = 14333.9065 * 1.0533768 * 1"
    by (simp add: defrost_inactive_def source_inputs_def truediv_def Let_def curve_defs)
  from evaluate_above_threshold_inactive [OF h, of ?psy] have
    "evaluate ?psy ?i = defrost_inactive ?i" by blast
  with h run show ?thesis by simp
qed

text \<open>
  C2. The runtime fraction is at most 1 in both branches (\<open>evaluate_RTF_le_1\<close>), it is
  not negative when the part-load ratio is not negative and the part-load factor is
  positive (\<open>evaluate_RTF_nonneg\<close>), and the part-load ratio is at most 1 in the defrost
  branch (\<open>evaluate_active_PLR_le_1\<close>). The \<^verbatim>\<open>else\<close> branch has no \<^verbatim>\<open>min(1.0, ...)\<close>
  on its part-load ratio (line 94, against line 85 of the defrost branch): at the
  source's inputs with an outdoor temperature of 10 degrees Celsius and a delivered load
  of 2000000, the evaluation returns a part-load ratio of about 2.21 and a part-load
  factor above 1.
\<close>

theorem evaluate_inactive_PLR_unclamped:
  "(case evaluate (fixed_provider 0.0062 0.0058)
           (source_inputs\<lparr>OAT := 10, Delivered_Load := 2000000\<rparr>) of
      Inl e \<Rightarrow> False
    | Inr r \<Rightarrow> PLR r = 2000000 / (14333.9065 * 1.0533768 * 60)
               \<and> 1 < PLR r \<and> 1 < PLF r \<and> RTF r = 1)"
  by (simp add: evaluate_def defrost_inactive_def source_inputs_def truediv_def Let_def
        curve_defs)

end
